theory Spec2Isabelle
  imports Complex_Main "HOL-Library.Sublist"
begin

section \<open>JavaScript values\<close>

text \<open>
  A field of a record parsed from JSON holds a value, holds \<open>null\<close>, or is absent, in
  which case reading it gives \<open>undefined\<close>. The three are kept apart, because the
  source tests \<open>!== null\<close>, which \<open>undefined\<close> passes. String-valued fields carry a
  \<open>string\<close>, numeric fields a number. Numbers are modelled as exact reals: JSON has no
  NaN and no infinity, and the rounding of IEEE doubles is not modelled.
\<close>

datatype 'a js = Undefined | Null | Val 'a

text \<open>Truthiness of a string-valued expression: \<open>undefined\<close>, \<open>null\<close> and the empty string are falsy.\<close>

definition truthy :: "string js \<Rightarrow> bool" where
  "truthy v = (case v of Val s \<Rightarrow> s \<noteq> [] | _ \<Rightarrow> False)"

text \<open>
  The result of an arithmetic expression: a finite number, an infinity or NaN. Finite
  results are exact reals; signed zeros are not distinguished.
\<close>

datatype jsnumber = Fin real | PosInf | NegInf | NaN

text \<open>\<open>ToNumber\<close>, as unary plus and the arithmetic operators apply it.\<close>

definition to_number :: "real js \<Rightarrow> jsnumber" where
  "to_number v = (case v of Undefined \<Rightarrow> NaN | Null \<Rightarrow> Fin 0 | Val x \<Rightarrow> Fin x)"

definition is_finite :: "jsnumber \<Rightarrow> bool" where
  "is_finite n = (case n of Fin _ \<Rightarrow> True | _ \<Rightarrow> False)"

section \<open>The data model\<close>

text \<open>One observation per country and year, as the records of \<open>data/processed_data.json\<close>
  and of \<open>getEmbeddedData\<close> have it.\<close>

record observation =
  country_name :: "string js"
  country_code :: "string js"
  year :: "real js"
  region :: "string js"
  income_group :: "string js"
  income_per_capita :: "real js"
  hiv_incidence_rate :: "real js"
  adult_literacy_rate :: "real js"
  secondary_school_enrollment :: "real js"
  life_expectancy :: "real js"
  total_population :: "real js"
  condom_use_average :: "real js"

text \<open>The numeric columns a scene plots; \<open>d[xField]\<close> in the source is \<open>get_field xField d\<close>.\<close>

datatype field =
  Income_per_capita | Hiv_incidence_rate | Adult_literacy_rate
  | Secondary_school_enrollment | Life_expectancy | Total_population | Condom_use_average

fun get_field :: "field \<Rightarrow> observation \<Rightarrow> real js" where
  "get_field Income_per_capita d = income_per_capita d"
| "get_field Hiv_incidence_rate d = hiv_incidence_rate d"
| "get_field Adult_literacy_rate d = adult_literacy_rate d"
| "get_field Secondary_school_enrollment d = secondary_school_enrollment d"
| "get_field Life_expectancy d = life_expectancy d"
| "get_field Total_population d = total_population d"
| "get_field Condom_use_average d = condom_use_average d"

text \<open>
  A record literal of \<open>getEmbeddedData\<close>: eleven keys are written out, and
  \<open>secondary_school_enrollment\<close> is not among them.
\<close>

definition embedded ::
  "string \<Rightarrow> string \<Rightarrow> real \<Rightarrow> string \<Rightarrow> string \<Rightarrow> real \<Rightarrow> real \<Rightarrow> real \<Rightarrow> real \<Rightarrow> real \<Rightarrow> real
    \<Rightarrow> observation" where
  "embedded name code y reg grp inc hiv lit life pop condom =
    \<lparr> country_name = Val name, country_code = Val code, year = Val y, region = Val reg,
      income_group = Val grp, income_per_capita = Val inc, hiv_incidence_rate = Val hiv,
      adult_literacy_rate = Val lit, secondary_school_enrollment = Undefined,
      life_expectancy = Val life, total_population = Val pop, condom_use_average = Val condom \<rparr>"

definition getEmbeddedData :: "observation list" where
  "getEmbeddedData =
   [ embedded ''United States'' ''USA'' 2021 ''North America'' ''High income'' 63593 0.38 99 78.86 331893745 61,
     embedded ''Germany'' ''DEU'' 2021 ''Europe & Central Asia'' ''High income'' 46208 0.12 99 81.33 83129285 65,
     embedded ''South Africa'' ''ZAF'' 2021 ''Sub-Saharan Africa'' ''Upper middle income'' 6374 7.7 87 64.13 59392255 45,
     embedded ''Brazil'' ''BRA'' 2021 ''Latin America & Caribbean'' ''Upper middle income'' 7507 0.41 93 75.88 213993437 55,
     embedded ''India'' ''IND'' 2021 ''South Asia'' ''Lower middle income'' 1947 0.07 74 69.66 1380004385 32,
     embedded ''China'' ''CHN'' 2021 ''East Asia & Pacific'' ''Upper middle income'' 10500 0.03 97 78.21 1412360000 48,
     embedded ''Nigeria'' ''NGA'' 2021 ''Sub-Saharan Africa'' ''Lower middle income'' 2097 0.52 62 54.69 218541212 28,
     embedded ''Thailand'' ''THA'' 2021 ''East Asia & Pacific'' ''Upper middle income'' 7189 0.06 93 77.15 69950850 72,
     embedded ''Kenya'' ''KEN'' 2021 ''Sub-Saharan Africa'' ''Lower middle income'' 1816 1.4 82 66.7 54027487 58,
     embedded ''Rwanda'' ''RWA'' 2021 ''Sub-Saharan Africa'' ''Low income'' 822 0.26 73 69.0 13276513 54,
     embedded ''United States'' ''USA'' 2015 ''North America'' ''High income'' 56863 0.42 99 78.69 321418820 58,
     embedded ''South Africa'' ''ZAF'' 2015 ''Sub-Saharan Africa'' ''Upper middle income'' 5724 10.2 85 62.77 55386367 42,
     embedded ''Thailand'' ''THA'' 2015 ''East Asia & Pacific'' ''Upper middle income'' 5970 0.09 93 76.43 68863514 68,
     embedded ''Rwanda'' ''RWA'' 2015 ''Sub-Saharan Africa'' ''Low income'' 697 0.35 68 66.1 11917508 48,
     embedded ''United States'' ''USA'' 2010 ''North America'' ''High income'' 48374 0.48 99 78.54 309321666 54,
     embedded ''South Africa'' ''ZAF'' 2010 ''Sub-Saharan Africa'' ''Upper middle income'' 7275 15.1 82 58.09 51216964 38,
     embedded ''Thailand'' ''THA'' 2010 ''East Asia & Pacific'' ''Upper middle income'' 5112 0.15 92 75.24 66402316 62,
     embedded ''Rwanda'' ''RWA'' 2010 ''Sub-Saharan Africa'' ''Low income'' 594 0.68 63 62.3 10412820 35 ]"

section \<open>\<open>parseInt\<close>\<close>

text \<open>
  The built-in \<open>parseInt(string)\<close> with no radix, on a string of ASCII characters:
  leading white space is skipped, one sign is read, a prefix \<open>0x\<close> or \<open>0X\<close> selects
  radix 16 (radix 10 otherwise), and the longest run of digits of that radix is the
  number; when the run is empty the result is NaN, here \<open>None\<close>. The result is the exact
  integer (a double holds it exactly up to \<open>2^53\<close>).
\<close>

definition is_white_space :: "char \<Rightarrow> bool" where
  "is_white_space c = (c \<in> set [CHR 0x09, CHR 0x0A, CHR 0x0B, CHR 0x0C, CHR 0x0D, CHR '' ''])"

definition digit_value :: "char \<Rightarrow> nat option" where
  "digit_value c =
    (let n = of_char c :: nat in
     if 48 \<le> n \<and> n \<le> 57 then Some (n - 48)
     else if 97 \<le> n \<and> n \<le> 102 then Some (n - 87)
     else if 65 \<le> n \<and> n \<le> 70 then Some (n - 55)
     else None)"

definition is_digit :: "nat \<Rightarrow> char \<Rightarrow> bool" where
  "is_digit radix c = (case digit_value c of Some v \<Rightarrow> v < radix | None \<Rightarrow> False)"

definition digits_value :: "nat \<Rightarrow> string \<Rightarrow> nat" where
  "digits_value radix z = foldl (\<lambda>acc c. acc * radix + the (digit_value c)) 0 z"

definition parseInt :: "string \<Rightarrow> int option" where
  "parseInt inputString =
    (let s = dropWhile is_white_space inputString;
         (sign, s) = (case s of
                        c # rest \<Rightarrow> if c = CHR ''-'' then (- 1 :: int, rest)
                                    else if c = CHR ''+'' then (1, rest) else (1, s)
                      | [] \<Rightarrow> (1, s));
         (radix, s) = (case s of
                         a # b # rest \<Rightarrow>
                           if a = CHR ''0'' \<and> (b = CHR ''x'' \<or> b = CHR ''X'') then (16 :: nat, rest)
                           else (10, s)
                       | _ \<Rightarrow> (10, s));
         z = takeWhile (is_digit radix) s
     in if z = [] then None else Some (sign * int (digits_value radix z)))"

section \<open>The filter engine\<close>

text \<open>
  The criteria object of \<open>filterData\<close>. Its call sites pass what the controls hold: the
  \<open>value\<close> of a DOM input is a string, and a key that is left out reads \<open>undefined\<close>.
\<close>

record filters =
  filter_year :: "string js"
  filter_region :: "string js"
  filter_income :: "string js"

text \<open>\<open>d.year === parseInt(filters.year)\<close>: strict equality of numbers; NaN equals nothing.\<close>

definition year_equals :: "real js \<Rightarrow> int option \<Rightarrow> bool" where
  "year_equals y p = (case p of None \<Rightarrow> False | Some k \<Rightarrow> y = Val (of_int k))"

definition parse_year :: "string js \<Rightarrow> int option" where
  "parse_year v = (case v of Val s \<Rightarrow> parseInt s | _ \<Rightarrow> None)"

definition hasBasicData :: "observation \<Rightarrow> bool" where
  "hasBasicData d = (income_per_capita d \<noteq> Null \<or> life_expectancy d \<noteq> Null)"

definition filterData :: "observation list \<Rightarrow> filters \<Rightarrow> observation list" where
  "filterData data fs =
    (let filtered = data;
         filtered = (if truthy (filter_year fs)
                     then filter (\<lambda>d. year_equals (year d) (parse_year (filter_year fs))) filtered
                     else filtered);
         filtered = (if truthy (filter_region fs) \<and> filter_region fs \<noteq> Val ''all''
                     then filter (\<lambda>d. region d = filter_region fs) filtered
                     else filtered);
         filtered = (if truthy (filter_income fs) \<and> filter_income fs \<noteq> Val ''all''
                     then filter (\<lambda>d. income_group d = filter_income fs) filtered
                     else filtered);
         filtered = filter hasBasicData filtered
     in filtered)"

text \<open>
  The claim's words for what \<open>filterData\<close> keeps: every criterion that is set (and, for
  region and income, is not \<open>"all"\<close>) is met, and one of the two anchor indicators is
  not \<open>null\<close>.
\<close>

definition meets_criteria :: "filters \<Rightarrow> observation \<Rightarrow> bool" where
  "meets_criteria fs d =
    ((truthy (filter_year fs) \<longrightarrow> year_equals (year d) (parse_year (filter_year fs)))
     \<and> (truthy (filter_region fs) \<and> filter_region fs \<noteq> Val ''all''
          \<longrightarrow> region d = filter_region fs)
     \<and> (truthy (filter_income fs) \<and> filter_income fs \<noteq> Val ''all''
          \<longrightarrow> income_group d = filter_income fs)
     \<and> (income_per_capita d \<noteq> Null \<or> life_expectancy d \<noteq> Null))"

subsection \<open>The same function on a store of arrays and records\<close>

text \<open>
  To state what \<open>filterData\<close> leaves untouched, arrays and records are objects of a
  store: an array is a list of references to records, \<open>this.data\<close> is a reference to
  an array (or \<open>null\<close>), \<open>[...a]\<close> and \<open>a.filter(p)\<close> each allocate a new array, and
  the records are shared between the arrays that refer to them.
\<close>

type_synonym addr = nat

record store =
  this_data :: "addr option"
  arrays :: "(addr \<times> addr list) list"
  objects :: "addr \<Rightarrow> observation"
  next_addr :: addr

datatype error = TypeError

definition elems :: "store \<Rightarrow> addr \<Rightarrow> addr list" where
  "elems s a = (case map_of (arrays s) a of Some xs \<Rightarrow> xs | None \<Rightarrow> [])"

definition new_array :: "addr list \<Rightarrow> store \<Rightarrow> addr \<times> store" where
  "new_array xs s =
    (next_addr s, s\<lparr> arrays := (next_addr s, xs) # arrays s, next_addr := Suc (next_addr s) \<rparr>)"

definition spread :: "addr \<Rightarrow> store \<Rightarrow> addr \<times> store" where
  "spread a s = new_array (elems s a) s"

definition array_filter :: "(observation \<Rightarrow> bool) \<Rightarrow> addr \<Rightarrow> store \<Rightarrow> addr \<times> store" where
  "array_filter p a s = new_array (filter (\<lambda>r. p (objects s r)) (elems s a)) s"

text \<open>Spreading \<open>null\<close> throws a TypeError before anything is allocated.\<close>

definition filterData_store :: "filters \<Rightarrow> store \<Rightarrow> error + addr \<times> store" where
  "filterData_store fs s =
    (case this_data s of
       None \<Rightarrow> Inl TypeError
     | Some a \<Rightarrow>
        (let (filtered, s) = spread a s;
             (filtered, s) =
               (if truthy (filter_year fs)
                then array_filter (\<lambda>d. year_equals (year d) (parse_year (filter_year fs))) filtered s
                else (filtered, s));
             (filtered, s) =
               (if truthy (filter_region fs) \<and> filter_region fs \<noteq> Val ''all''
                then array_filter (\<lambda>d. region d = filter_region fs) filtered s
                else (filtered, s));
             (filtered, s) =
               (if truthy (filter_income fs) \<and> filter_income fs \<noteq> Val ''all''
                then array_filter (\<lambda>d. income_group d = filter_income fs) filtered s
                else (filtered, s));
             (filtered, s) = array_filter hasBasicData filtered s
         in Inr (filtered, s)))"

text \<open>The allocator's invariant: every array lives below the next free address.\<close>

definition store_ok :: "store \<Rightarrow> bool" where
  "store_ok s = list_all (\<lambda>(a, xs). a < next_addr s) (arrays s)"

text \<open>
  The records an array refers to, in order, and what a call leaves in place: \<open>this.data\<close>
  still refers to the same array, every record is as it was, and every array that
  existed still holds the same references in the same order.
\<close>

definition contents :: "store \<Rightarrow> addr \<Rightarrow> observation list" where
  "contents s a = map (objects s) (elems s a)"

definition frame :: "store \<Rightarrow> store \<Rightarrow> bool" where
  "frame s s' =
    (this_data s' = this_data s \<and> objects s' = objects s
     \<and> (\<forall>b ys. map_of (arrays s) b = Some ys \<longrightarrow> map_of (arrays s') b = Some ys))"

text \<open>The store after \<open>loadData\<close> fell back to the embedded records.\<close>

definition embedded_store :: store where
  "embedded_store =
    \<lparr> this_data = Some 0,
      arrays = [(0, [0, 1, 2, 3, 4, 5, 6, 7, 8, 9, 10, 11, 12, 13, 14, 15, 16, 17])],
      objects = (\<lambda>r. getEmbeddedData ! r),
      next_addr = 1 \<rparr>"

text \<open>A criterion that is left out, \<open>null\<close> or the empty string.\<close>

definition unset :: "string js \<Rightarrow> bool" where
  "unset v = (v = Undefined \<or> v = Null \<or> v = Val [])"

section \<open>Scene navigation\<close>

text \<open>
  The controller's scene pointer, with the part of the page that \<open>goToScene\<close> and
  \<open>updateNavigation\<close> write: which scene containers carry the class \<open>hidden\<close>, and
  whether the two buttons are disabled. The page itself is a parameter: \<open>scenes\<close> is
  the set of \<open>k\<close> for which an element \<open>#scene-k\<close> exists. \<open>querySelector\<close>
  returns \<open>null\<close> for any other \<open>k\<close>, and reading \<open>classList\<close> of \<open>null\<close> throws; what
  was assigned before the throw stays assigned.
\<close>

record nav =
  currentScene :: int
  hidden :: "int set"
  prev_disabled :: bool
  next_disabled :: bool

definition updateNavigation :: "nav \<Rightarrow> nav" where
  "updateNavigation s =
    s\<lparr> prev_disabled := (currentScene s = 1), next_disabled := (currentScene s = 3) \<rparr>"

definition goToScene :: "int set \<Rightarrow> int \<Rightarrow> nav \<Rightarrow> nav \<times> error option" where
  "goToScene scenes sceneNumber s =
    (if currentScene s \<notin> scenes then (s, Some TypeError)
     else
       (let s = s\<lparr> hidden := insert (currentScene s) (hidden s) \<rparr>;
            s = s\<lparr> currentScene := sceneNumber \<rparr>
        in if currentScene s \<notin> scenes then (s, Some TypeError)
           else
             (let s = s\<lparr> hidden := hidden s - {currentScene s} \<rparr>;
                  s = updateNavigation s
              in (s, None))))"

definition previousScene :: "int set \<Rightarrow> nav \<Rightarrow> nav \<times> error option" where
  "previousScene scenes s =
    (if currentScene s > 1 then goToScene scenes (currentScene s - 1) s else (s, None))"

definition nextScene :: "int set \<Rightarrow> nav \<Rightarrow> nav \<times> error option" where
  "nextScene scenes s =
    (if currentScene s < 3 then goToScene scenes (currentScene s + 1) s else (s, None))"

text \<open>The controller as constructed: scene 1 shown, the other two hidden.\<close>

definition first_scene :: nav where
  "first_scene =
    \<lparr> currentScene = 1, hidden = {2, 3}, prev_disabled = True, next_disabled = False \<rparr>"

section \<open>Colours\<close>

text \<open>
  \<open>d3.scaleOrdinal\<close> with its default implicit domain: a value found in the domain
  gets the range entry of its index (modulo the range's length); a value not found is
  appended to the domain first. The scale returns the colour and keeps the domain.
\<close>

fun index_of :: "'a \<Rightarrow> 'a list \<Rightarrow> nat option" where
  "index_of x [] = None"
| "index_of x (y # ys) = (if x = y then Some 0 else map_option Suc (index_of x ys))"

definition scaleOrdinal :: "'b list \<Rightarrow> 'a list \<Rightarrow> 'a \<Rightarrow> 'b \<times> 'a list" where
  "scaleOrdinal rng dmn d =
    (case index_of d dmn of
       Some i \<Rightarrow> (rng ! (i mod length rng), dmn)
     | None \<Rightarrow> (rng ! (length dmn mod length rng), dmn @ [d]))"

definition income_domain :: "string js list" where
  "income_domain =
    [Val ''Low income'', Val ''Lower middle income'', Val ''Upper middle income'', Val ''High income'']"

definition income_range :: "string list" where
  "income_range = [''#dc2626'', ''#d97706'', ''#059669'', ''#2563eb'']"

text \<open>\<open>this.colors.income(d.income_group)\<close>, the fill of every mark, on the scale's current domain.\<close>

definition colors_income :: "string js list \<Rightarrow> string js \<Rightarrow> string \<times> string js list" where
  "colors_income dmn g = scaleOrdinal income_range dmn g"

text \<open>The entries \<open>addIncomeLegend\<close> draws: name and fill of each legend circle.\<close>

definition incomeGroups :: "(string \<times> string) list" where
  "incomeGroups =
    [ (''High income'', ''#0ea5e9''), (''Upper middle income'', ''#059669''),
      (''Lower middle income'', ''#f59e0b''), (''Low income'', ''#dc2626'') ]"

section \<open>Arithmetic on numbers\<close>

text \<open>
  The operators on \<open>jsnumber\<close> follow IEEE 754 for infinities and NaN and are exact on
  finite operands. A zero divisor is taken as \<open>+0\<close>, which is what a sum of squares is.
\<close>

definition inf_of_sign :: "real \<Rightarrow> jsnumber" where
  "inf_of_sign x = (if x > 0 then PosInf else if x < 0 then NegInf else NaN)"

fun js_neg :: "jsnumber \<Rightarrow> jsnumber" where
  "js_neg (Fin a) = Fin (- a)"
| "js_neg PosInf = NegInf"
| "js_neg NegInf = PosInf"
| "js_neg NaN = NaN"

fun js_add :: "jsnumber \<Rightarrow> jsnumber \<Rightarrow> jsnumber" where
  "js_add (Fin a) (Fin b) = Fin (a + b)"
| "js_add NaN _ = NaN"
| "js_add _ NaN = NaN"
| "js_add PosInf NegInf = NaN"
| "js_add NegInf PosInf = NaN"
| "js_add PosInf _ = PosInf"
| "js_add _ PosInf = PosInf"
| "js_add NegInf _ = NegInf"
| "js_add _ NegInf = NegInf"

definition js_sub :: "jsnumber \<Rightarrow> jsnumber \<Rightarrow> jsnumber" where
  "js_sub a b = js_add a (js_neg b)"

fun js_mul :: "jsnumber \<Rightarrow> jsnumber \<Rightarrow> jsnumber" where
  "js_mul (Fin a) (Fin b) = Fin (a * b)"
| "js_mul NaN _ = NaN"
| "js_mul _ NaN = NaN"
| "js_mul PosInf (Fin b) = inf_of_sign b"
| "js_mul NegInf (Fin b) = inf_of_sign (- b)"
| "js_mul (Fin a) PosInf = inf_of_sign a"
| "js_mul (Fin a) NegInf = inf_of_sign (- a)"
| "js_mul PosInf PosInf = PosInf"
| "js_mul NegInf NegInf = PosInf"
| "js_mul PosInf NegInf = NegInf"
| "js_mul NegInf PosInf = NegInf"

fun js_div :: "jsnumber \<Rightarrow> jsnumber \<Rightarrow> jsnumber" where
  "js_div (Fin a) (Fin b) = (if b = 0 then inf_of_sign a else Fin (a / b))"
| "js_div NaN _ = NaN"
| "js_div _ NaN = NaN"
| "js_div (Fin a) _ = Fin 0"
| "js_div PosInf (Fin b) = (if b < 0 then NegInf else PosInf)"
| "js_div NegInf (Fin b) = (if b < 0 then PosInf else NegInf)"
| "js_div _ _ = NaN"

text \<open>\<open>Math.max\<close> of two numbers: NaN when either is NaN.\<close>

fun Math_max :: "jsnumber \<Rightarrow> jsnumber \<Rightarrow> jsnumber" where
  "Math_max (Fin a) (Fin b) = Fin (max a b)"
| "Math_max NaN _ = NaN"
| "Math_max _ NaN = NaN"
| "Math_max PosInf _ = PosInf"
| "Math_max _ PosInf = PosInf"
| "Math_max NegInf b = b"
| "Math_max a NegInf = a"

text \<open>\<open>v >= c\<close> for a field \<open>v\<close> and a number \<open>c\<close>: a comparison with NaN is false.\<close>

definition js_ge :: "real js \<Rightarrow> real \<Rightarrow> bool" where
  "js_ge v c = (case to_number v of Fin x \<Rightarrow> x \<ge> c | _ \<Rightarrow> False)"

section \<open>The d3 functions the scenes call\<close>

text \<open>
  \<open>d3.extent\<close>, \<open>d3.max\<close> and \<open>d3.mean\<close> over the values an accessor returns: \<open>null\<close>
  and \<open>undefined\<close> are skipped, and the result is \<open>undefined\<close> when nothing is left.
\<close>

fun extent_step :: "real js \<times> real js \<Rightarrow> real js \<Rightarrow> real js \<times> real js" where
  "extent_step (Val m, Val M) (Val x) = (if m > x then Val x else Val m, if M < x then Val x else Val M)"
| "extent_step (mn, mx) (Val x) = (Val x, Val x)"
| "extent_step (mn, mx) v = (mn, mx)"

definition d3_extent :: "real js list \<Rightarrow> real js \<times> real js" where
  "d3_extent vs = foldl extent_step (Undefined, Undefined) vs"

fun max_step :: "real js \<Rightarrow> real js \<Rightarrow> real js" where
  "max_step (Val M) (Val x) = (if M < x then Val x else Val M)"
| "max_step mx (Val x) = Val x"
| "max_step mx v = mx"

definition d3_max :: "real js list \<Rightarrow> real js" where
  "d3_max vs = foldl max_step Undefined vs"

fun mean_step :: "nat \<times> real \<Rightarrow> real js \<Rightarrow> nat \<times> real" where
  "mean_step (count, acc) (Val x) = (Suc count, acc + x)"
| "mean_step (count, acc) v = (count, acc)"

definition d3_mean :: "real js list \<Rightarrow> real js" where
  "d3_mean vs =
    (let (count, acc) = foldl mean_step (0, 0) vs
     in if count \<noteq> 0 then Val (acc / real count) else Undefined)"

text \<open>
  \<open>d3.scaleSqrt().domain([d0, d1]).range([r0, r1])\<close> on finite numbers: the domain and
  the argument go through the square root (odd for negative numbers), the position
  between the transformed ends is normalised (\<open>0.5\<close> when the ends coincide) and
  interpolated linearly over the range.
\<close>

definition transformSqrt :: "real \<Rightarrow> real" where
  "transformSqrt x = (if x < 0 then - sqrt (- x) else sqrt x)"

definition normalize :: "real \<Rightarrow> real \<Rightarrow> real \<Rightarrow> real" where
  "normalize a b x = (if b - a \<noteq> 0 then (x - a) / (b - a) else 0.5)"

definition interpolateNumber :: "real \<Rightarrow> real \<Rightarrow> real \<Rightarrow> real" where
  "interpolateNumber a b t = a * (1 - t) + b * t"

definition scaleSqrt :: "real \<times> real \<Rightarrow> real \<times> real \<Rightarrow> real \<Rightarrow> real" where
  "scaleSqrt dmn rng x =
    (let d0 = transformSqrt (fst dmn); d1 = transformSqrt (snd dmn);
         r0 = fst rng; r1 = snd rng
     in if d1 < d0 then interpolateNumber r1 r0 (normalize d1 d0 (transformSqrt x))
        else interpolateNumber r0 r1 (normalize d0 d1 (transformSqrt x)))"

section \<open>The scenes' scales\<close>

text \<open>\<open>d.total_population || 1000000\<close>: the default replaces a falsy value.\<close>

definition population_or_default :: "observation \<Rightarrow> real" where
  "population_or_default d =
    (case total_population d of Val x \<Rightarrow> if x = 0 then 1000000 else x | _ \<Rightarrow> 1000000)"

text \<open>
  \<open>rScale\<close> of \<open>renderScene1\<close>, built on the valid data of the render, and the radius it
  gives the mark of a record.
\<close>

definition rScale :: "observation list \<Rightarrow> real \<Rightarrow> jsnumber" where
  "rScale validData x =
    (case d3_extent (map (\<lambda>d. Val (population_or_default d)) validData) of
       (Val lo, Val hi) \<Rightarrow> Fin (scaleSqrt (lo, hi) (3, 25) x)
     | _ \<Rightarrow> NaN)"

definition mark_radius :: "observation list \<Rightarrow> observation \<Rightarrow> jsnumber" where
  "mark_radius validData d = rScale validData (population_or_default d)"

text \<open>
  What a render produces, as far as the scales go: the placeholder text, or the
  domains of the x, y and radius scales. The values of the controls are parameters:
  \<open>year\<close> and \<open>region\<close> are the strings read from the page (or their defaults), and
  \<open>educationMetric\<close> is the chosen column.
\<close>

record scales =
  xDomain :: "jsnumber \<times> jsnumber"
  yDomain :: "jsnumber \<times> jsnumber"
  rDomain :: "jsnumber \<times> jsnumber"

datatype render = Placeholder string | Chart scales

definition numbers :: "real js \<times> real js \<Rightarrow> jsnumber \<times> jsnumber" where
  "numbers e = (to_number (fst e), to_number (snd e))"

text \<open>Both ends of a scale's domain are finite numbers.\<close>

definition finite_domain :: "jsnumber \<times> jsnumber \<Rightarrow> bool" where
  "finite_domain dm = (is_finite (fst dm) \<and> is_finite (snd dm))"

definition scene1_validData :: "observation list \<Rightarrow> string \<Rightarrow> string \<Rightarrow> observation list" where
  "scene1_validData dataset year_value region_value =
    (let data = filterData dataset
                  \<lparr> filter_year = Val year_value, filter_region = Val region_value,
                    filter_income = Undefined \<rparr>
     in filter (\<lambda>d. income_per_capita d \<noteq> Null \<and> hiv_incidence_rate d \<noteq> Null
                     \<and> js_ge (hiv_incidence_rate d) 0) data)"

definition renderScene1 :: "observation list \<Rightarrow> string \<Rightarrow> string \<Rightarrow> render" where
  "renderScene1 dataset year_value region_value =
    (let validData = scene1_validData dataset year_value region_value
     in if length validData = 0 then Placeholder ''No data available for the selected filters''
        else
          (let xExtent = numbers (d3_extent (map income_per_capita validData))
           in Chart \<lparr> xDomain = (Math_max (fst xExtent) (Fin 100), snd xExtent),
                      yDomain = (Fin 0, js_mul (to_number (d3_max (map hiv_incidence_rate validData)))
                                             (Fin 1.1)),
                      rDomain = numbers (d3_extent (map (\<lambda>d. Val (population_or_default d))
                                                     validData)) \<rparr>))"

definition scene2_data :: "observation list \<Rightarrow> string \<Rightarrow> field \<Rightarrow> observation list" where
  "scene2_data dataset year_value educationMetric =
    filter (\<lambda>d. year_equals (year d) (parseInt year_value)
                 \<and> get_field educationMetric d \<noteq> Null
                 \<and> hiv_incidence_rate d \<noteq> Null
                 \<and> income_per_capita d \<noteq> Null) dataset"

definition renderScene2 :: "observation list \<Rightarrow> string \<Rightarrow> field \<Rightarrow> render" where
  "renderScene2 dataset year_value educationMetric =
    (let data = scene2_data dataset year_value educationMetric
     in if length data = 0 then Placeholder ''Limited education data available''
        else Chart \<lparr> xDomain = numbers (d3_extent (map (get_field educationMetric) data)),
                     yDomain = (Fin 0, js_mul (to_number (d3_max (map hiv_incidence_rate data)))
                                            (Fin 1.1)),
                     rDomain = numbers (d3_extent (map (\<lambda>d. Val (population_or_default d))
                                                    data)) \<rparr>)"

definition scene3_data :: "observation list \<Rightarrow> observation list" where
  "scene3_data dataset =
    filter (\<lambda>d. condom_use_average d \<noteq> Null \<and> adult_literacy_rate d \<noteq> Null
                 \<and> js_ge (year d) 2010) dataset"

definition renderScene3 :: "observation list \<Rightarrow> render" where
  "renderScene3 dataset =
    (let data = scene3_data dataset
     in if length data = 0 then Placeholder ''Limited behavioral data available''
        else Chart \<lparr> xDomain = numbers (d3_extent (map adult_literacy_rate data)),
                     yDomain = numbers (d3_extent (map condom_use_average data)),
                     rDomain = numbers (d3_extent (map (\<lambda>d. Val (population_or_default d))
                                                    data)) \<rparr>)"

section \<open>The trend line\<close>

text \<open>
  \<open>addTrendLine\<close> fits a line through the points \<open>(d[xField], d[yField])\<close>. The model
  returns the slope and the intercept from which the source samples the path it draws,
  and \<open>None\<close> when it returns before computing anything.
\<close>

definition trend_validData :: "observation list \<Rightarrow> field \<Rightarrow> field \<Rightarrow> observation list" where
  "trend_validData data xField yField =
    filter (\<lambda>d. get_field xField d \<noteq> Null \<and> get_field yField d \<noteq> Null) data"

text \<open>
  The body of the \<open>forEach\<close> loop, which adds one record's share to the numerator and
  the denominator of the slope, and the loop itself.
\<close>

definition sums_step ::
  "field \<Rightarrow> field \<Rightarrow> jsnumber \<Rightarrow> jsnumber \<Rightarrow> jsnumber \<times> jsnumber \<Rightarrow> observation
    \<Rightarrow> jsnumber \<times> jsnumber" where
  "sums_step xField yField xMean yMean acc d =
    (let xDiff = js_sub (to_number (get_field xField d)) xMean;
         yDiff = js_sub (to_number (get_field yField d)) yMean
     in (js_add (fst acc) (js_mul xDiff yDiff), js_add (snd acc) (js_mul xDiff xDiff)))"

definition trend_sums :: "observation list \<Rightarrow> field \<Rightarrow> field \<Rightarrow> jsnumber \<times> jsnumber" where
  "trend_sums validData xField yField =
    (let xMean = to_number (d3_mean (map (get_field xField) validData));
         yMean = to_number (d3_mean (map (get_field yField) validData))
     in foldl (sums_step xField yField xMean yMean) (Fin 0, Fin 0) validData)"

definition addTrendLine :: "observation list \<Rightarrow> field \<Rightarrow> field \<Rightarrow> (jsnumber \<times> jsnumber) option" where
  "addTrendLine data xField yField =
    (let validData = trend_validData data xField yField
     in if length validData < 3 then None
        else
          (let xMean = to_number (d3_mean (map (get_field xField) validData));
               yMean = to_number (d3_mean (map (get_field yField) validData));
               (numerator, denominator) = trend_sums validData xField yField;
               slope = js_div numerator denominator;
               intercept = js_sub yMean (js_mul slope xMean)
           in Some (slope, intercept)))"

text \<open>
  Three of the embedded records (United States 2021, Germany 2021, United States
  2015), all with an adult literacy rate of 99.
\<close>

definition equal_literacy_sample :: "observation list" where
  "equal_literacy_sample = [getEmbeddedData ! 0, getEmbeddedData ! 1, getEmbeddedData ! 10]"




text \<open>Two records whose populations are in the ratio 4 : 1.\<close>

definition four_million :: observation where
  "four_million =
    embedded ''Larger'' ''LRG'' 2021 ''South Asia'' ''Low income'' 1000 0.5 70 60 4000000 50"

definition one_million :: observation where
  "one_million =
    embedded ''Smaller'' ''SML'' 2021 ''South Asia'' ''Low income'' 1200 0.4 75 62 1000000 55"

section \<open>Properties of the filter engine\<close>

lemma parseInt_2021: "parseInt ''2021'' = Some 2021"
  by (simp add: parseInt_def is_white_space_def is_digit_def digit_value_def digits_value_def)

lemma parseInt_all: "parseInt ''all'' = None"
  by (simp add: parseInt_def is_white_space_def is_digit_def digit_value_def)

lemma truthy_Undefined: "\<not> truthy Undefined"
  by (simp add: truthy_def)

lemma unset_not_truthy: "unset v \<Longrightarrow> \<not> truthy v"
  by (auto simp: unset_def truthy_def)

lemma filterData_filter: "filterData data fs = filter (meets_criteria fs) data"
  unfolding filterData_def meets_criteria_def Let_def hasBasicData_def
  by (auto intro!: filter_cong)

text \<open>
  Claim C1. For every dataset and every criteria object, \<open>filterData\<close> returns exactly
  the records of the dataset that meet every criterion that is set (year equal to the
  year parsed from the criterion; region and income equal to the criterion unless it
  is \<open>"all"\<close>) and that have \<open>income_per_capita\<close> or \<open>life_expectancy\<close> not \<open>null\<close>; the
  records come in the order of the input, and none is made up.
\<close>

theorem filterData_exact:
  "filterData data fs = filter (meets_criteria fs) data
   \<and> subseq (filterData data fs) data
   \<and> set (filterData data fs) \<subseteq> set data"
  by (simp add: filterData_filter)

theorem filterData_exact_witness:
  "map country_code
     (filterData getEmbeddedData
        \<lparr> filter_year = Val ''2021'', filter_region = Val ''Sub-Saharan Africa'',
          filter_income = Undefined \<rparr>)
   = [Val ''ZAF'', Val ''NGA'', Val ''KEN'', Val ''RWA'']
   \<and> map country_code
     (filterData getEmbeddedData
        \<lparr> filter_year = Val ''2021'', filter_region = Val ''all'',
          filter_income = Val ''High income'' \<rparr>)
   = [Val ''USA'', Val ''DEU'']"
proof -
  let ?fs = "\<lparr> filter_year = Val ''2021'', filter_region = Val ''Sub-Saharan Africa'',
               filter_income = Undefined \<rparr>"
  let ?gs = "\<lparr> filter_year = Val ''2021'', filter_region = Val ''all'',
               filter_income = Val ''High income'' \<rparr>"
  have "filterData getEmbeddedData ?fs = filter (meets_criteria ?fs) getEmbeddedData"
    using filterData_exact [of getEmbeddedData ?fs] by simp
  then have 1: "map country_code (filterData getEmbeddedData ?fs)
                = [Val ''ZAF'', Val ''NGA'', Val ''KEN'', Val ''RWA'']"
    by (simp add: meets_criteria_def getEmbeddedData_def embedded_def truthy_def
        year_equals_def parse_year_def parseInt_2021)
  have "filterData getEmbeddedData ?gs = filter (meets_criteria ?gs) getEmbeddedData"
    using filterData_exact [of getEmbeddedData ?gs] by simp
  then have 2: "map country_code (filterData getEmbeddedData ?gs) = [Val ''USA'', Val ''DEU'']"
    by (simp add: meets_criteria_def getEmbeddedData_def embedded_def truthy_def
        year_equals_def parse_year_def parseInt_2021)
  from 1 2 show ?thesis by simp
qed

text \<open>
  The last test of \<open>filterData\<close> is \<open>!== null\<close>, which a key that is absent passes: a
  record with neither anchor indicator present is kept.
\<close>

lemma filterData_keeps_absent_anchors:
  "filterData [d\<lparr> income_per_capita := Undefined, life_expectancy := Undefined \<rparr>]
      \<lparr> filter_year = Undefined, filter_region = Undefined, filter_income = Undefined \<rparr>
   = [d\<lparr> income_per_capita := Undefined, life_expectancy := Undefined \<rparr>]"
  by (simp add: filterData_def truthy_def hasBasicData_def)

lemma meets_criteria_region_inactive:
  assumes "\<not> truthy v \<or> v = Val ''all''"
  shows "meets_criteria (fs\<lparr>filter_region := v\<rparr>)
         = meets_criteria (fs\<lparr>filter_region := Undefined\<rparr>)"
proof
  fix d
  from assms
  show "meets_criteria (fs\<lparr>filter_region := v\<rparr>) d
        = meets_criteria (fs\<lparr>filter_region := Undefined\<rparr>) d"
    by (cases "truthy v") (simp_all add: meets_criteria_def truthy_Undefined)
qed

lemma meets_criteria_income_inactive:
  assumes "\<not> truthy v \<or> v = Val ''all''"
  shows "meets_criteria (fs\<lparr>filter_income := v\<rparr>)
         = meets_criteria (fs\<lparr>filter_income := Undefined\<rparr>)"
proof
  fix d
  from assms
  show "meets_criteria (fs\<lparr>filter_income := v\<rparr>) d
        = meets_criteria (fs\<lparr>filter_income := Undefined\<rparr>) d"
    by (cases "truthy v") (simp_all add: meets_criteria_def truthy_Undefined)
qed

lemma meets_criteria_year_inactive:
  assumes "\<not> truthy v"
  shows "meets_criteria (fs\<lparr>filter_year := v\<rparr>) = meets_criteria (fs\<lparr>filter_year := Undefined\<rparr>)"
proof
  fix d
  from assms
  show "meets_criteria (fs\<lparr>filter_year := v\<rparr>) d = meets_criteria (fs\<lparr>filter_year := Undefined\<rparr>) d"
    by (simp add: meets_criteria_def truthy_Undefined)
qed

text \<open>
  Claim C2, as stated, fails for the year: \<open>"all"\<close> is a truthy string, \<open>parseInt("all")\<close>
  is NaN, no year equals NaN, and the embedded dataset is filtered down to nothing,
  whereas with no year criterion all eighteen records pass.
\<close>

theorem filterData_year_all_counterexample:
  "filterData getEmbeddedData
      \<lparr> filter_year = Val ''all'', filter_region = Undefined, filter_income = Undefined \<rparr>
   \<noteq> filterData getEmbeddedData
      \<lparr> filter_year = Undefined, filter_region = Undefined, filter_income = Undefined \<rparr>"
  by (simp add: filterData_def getEmbeddedData_def embedded_def truthy_def
        year_equals_def parse_year_def parseInt_all hasBasicData_def)

text \<open>
  Claim C2, amended. A region or income criterion that is unset or \<open>"all"\<close> excludes
  no record on that dimension, and neither does a year criterion that is unset: the
  output is what it is with that criterion absent.
\<close>

theorem filterData_unset_passes:
  "(unset vr \<or> vr = Val ''all'' \<longrightarrow>
      filterData data (fs\<lparr>filter_region := vr\<rparr>)
      = filterData data (fs\<lparr>filter_region := Undefined\<rparr>))
   \<and> (unset vi \<or> vi = Val ''all'' \<longrightarrow>
      filterData data (fs\<lparr>filter_income := vi\<rparr>)
      = filterData data (fs\<lparr>filter_income := Undefined\<rparr>))
   \<and> (unset vy \<longrightarrow>
      filterData data (fs\<lparr>filter_year := vy\<rparr>)
      = filterData data (fs\<lparr>filter_year := Undefined\<rparr>))"
  using meets_criteria_region_inactive [of vr fs] meets_criteria_income_inactive [of vi fs]
    meets_criteria_year_inactive [of vy fs] unset_not_truthy
  unfolding filterData_filter by metis

theorem filterData_unset_passes_witness:
  "filterData getEmbeddedData
      \<lparr> filter_year = Val ''2021'', filter_region = Val ''all'', filter_income = Val ''High income'' \<rparr>
   = filterData getEmbeddedData
      \<lparr> filter_year = Val ''2021'', filter_region = Undefined, filter_income = Val ''High income'' \<rparr>
   \<and> filterData getEmbeddedData
      \<lparr> filter_year = Val ''2021'', filter_region = Val ''all'', filter_income = Val ''all'' \<rparr>
   = filterData getEmbeddedData
      \<lparr> filter_year = Val ''2021'', filter_region = Val ''all'', filter_income = Undefined \<rparr>
   \<and> filterData getEmbeddedData
      \<lparr> filter_year = Val [], filter_region = Val ''all'', filter_income = Undefined \<rparr>
   = filterData getEmbeddedData
      \<lparr> filter_year = Undefined, filter_region = Val ''all'', filter_income = Undefined \<rparr>"
  using
    filterData_unset_passes [of "Val ''all''" getEmbeddedData
      "\<lparr> filter_year = Val ''2021'', filter_region = Val ''all'', filter_income = Val ''High income'' \<rparr>"
      Undefined Undefined]
    filterData_unset_passes [of Undefined getEmbeddedData
      "\<lparr> filter_year = Val ''2021'', filter_region = Val ''all'', filter_income = Undefined \<rparr>"
      "Val ''all''" Undefined]
    filterData_unset_passes [of Undefined getEmbeddedData
      "\<lparr> filter_year = Undefined, filter_region = Val ''all'', filter_income = Undefined \<rparr>"
      Undefined "Val []"]
  by (simp add: unset_def)

text \<open>
  Claim C7. Filtering is idempotent: filtering the output of \<open>filterData\<close> again with
  the same criteria returns the same sequence.
\<close>

theorem filterData_idempotent: "filterData (filterData data fs) fs = filterData data fs"
  by (simp add: filterData_filter)

theorem filterData_idempotent_witness:
  "filterData
     (filterData getEmbeddedData
        \<lparr> filter_year = Val ''2015'', filter_region = Val ''all'', filter_income = Val ''Low income'' \<rparr>)
     \<lparr> filter_year = Val ''2015'', filter_region = Val ''all'', filter_income = Val ''Low income'' \<rparr>
   = filterData getEmbeddedData
       \<lparr> filter_year = Val ''2015'', filter_region = Val ''all'', filter_income = Val ''Low income'' \<rparr>"
  using filterData_idempotent
    [of getEmbeddedData
        "\<lparr> filter_year = Val ''2015'', filter_region = Val ''all'', filter_income = Val ''Low income'' \<rparr>"]
  by simp

subsection \<open>What a call leaves untouched\<close>

lemma frame_refl: "frame s s"
  by (simp add: frame_def)

lemma frame_trans: "frame s t \<Longrightarrow> frame t u \<Longrightarrow> frame s u"
  by (simp add: frame_def)

lemma store_ok_fresh:
  assumes "store_ok s"
  shows "map_of (arrays s) (next_addr s) = None"
proof -
  from assms have "\<forall>(a, xs) \<in> set (arrays s). a < next_addr s"
    by (simp add: store_ok_def list_all_iff)
  then have "next_addr s \<notin> fst ` set (arrays s)" by force
  then show ?thesis by (simp add: map_of_eq_None_iff)
qed

lemma new_array_step:
  assumes "store_ok s" and "new_array xs s = (r, s')"
  shows "store_ok s' \<and> frame s s' \<and> elems s' r = xs"
proof -
  from assms(2) have r: "r = next_addr s"
    and s': "s' = s\<lparr> arrays := (next_addr s, xs) # arrays s, next_addr := Suc (next_addr s) \<rparr>"
    by (auto simp: new_array_def)
  have ok: "store_ok s'"
    using assms(1) unfolding s' store_ok_def list_all_iff by auto
  have fr: "frame s s'"
    using store_ok_fresh [OF assms(1)] unfolding s' frame_def by auto
  have "elems s' r = xs" by (simp add: r s' elems_def)
  with ok fr show ?thesis by simp
qed

lemma array_filter_step:
  assumes "store_ok s" and "array_filter p f s = (f', s')"
  shows "store_ok s' \<and> frame s s' \<and> contents s' f' = filter p (contents s f)"
proof -
  from new_array_step [OF assms(1) assms(2) [unfolded array_filter_def]]
  have ok: "store_ok s'" and fr: "frame s s'"
    and el: "elems s' f' = filter (\<lambda>r. p (objects s r)) (elems s f)" by simp_all
  from fr have "objects s' = objects s" by (simp add: frame_def)
  with el have "contents s' f' = filter p (contents s f)"
    by (simp add: contents_def filter_map comp_def)
  with ok fr show ?thesis by simp
qed

lemma spread_step:
  assumes "store_ok s" and "spread a s = (f', s')"
  shows "store_ok s' \<and> frame s s' \<and> contents s' f' = contents s a"
proof -
  from new_array_step [OF assms(1) assms(2) [unfolded spread_def]]
  have ok: "store_ok s'" and fr: "frame s s'" and el: "elems s' f' = elems s a" by simp_all
  from fr have "objects s' = objects s" by (simp add: frame_def)
  with el ok fr show ?thesis by (simp add: contents_def)
qed

lemma cond_filter_step:
  assumes "store_ok s" and "(if c then array_filter p f s else (f, s)) = (f', s')"
  shows "store_ok s' \<and> frame s s'
         \<and> contents s' f' = (if c then filter p (contents s f) else contents s f)"
proof (cases c)
  case True
  with assms array_filter_step [of s p f f' s'] show ?thesis by simp
next
  case False
  with assms show ?thesis by (simp add: frame_refl)
qed

lemma filterData_store_steps:
  assumes ok: "store_ok s" and d: "this_data s = Some a"
  shows "\<exists>r s'. filterData_store fs s = Inr (r, s') \<and> frame s s'
           \<and> contents s' r = filterData (contents s a) fs"
proof -
  obtain f0 s0 where e0: "spread a s = (f0, s0)" by force
  obtain f1 s1 where e1:
    "(if truthy (filter_year fs)
      then array_filter (\<lambda>d. year_equals (year d) (parse_year (filter_year fs))) f0 s0
      else (f0, s0)) = (f1, s1)" by force
  obtain f2 s2 where e2:
    "(if truthy (filter_region fs) \<and> filter_region fs \<noteq> Val ''all''
      then array_filter (\<lambda>d. region d = filter_region fs) f1 s1
      else (f1, s1)) = (f2, s2)" by force
  obtain f3 s3 where e3:
    "(if truthy (filter_income fs) \<and> filter_income fs \<noteq> Val ''all''
      then array_filter (\<lambda>d. income_group d = filter_income fs) f2 s2
      else (f2, s2)) = (f3, s3)" by force
  obtain f4 s4 where e4: "array_filter hasBasicData f3 s3 = (f4, s4)" by force
  note p0 = spread_step [OF ok e0]
  note p1 = cond_filter_step [OF conjunct1 [OF p0] e1]
  note p2 = cond_filter_step [OF conjunct1 [OF p1] e2]
  note p3 = cond_filter_step [OF conjunct1 [OF p2] e3]
  note p4 = array_filter_step [OF conjunct1 [OF p3] e4]
  have res: "filterData_store fs s = Inr (f4, s4)"
    unfolding filterData_store_def d by (simp add: e0 e1 e2 e3 e4)
  have fr: "frame s s4"
    using p0 p1 p2 p3 p4 by (blast intro: frame_trans)
  have c0: "contents s0 f0 = contents s a" using p0 by simp
  have c1: "contents s1 f1 =
      (if truthy (filter_year fs)
       then filter (\<lambda>d. year_equals (year d) (parse_year (filter_year fs))) (contents s0 f0)
       else contents s0 f0)" using p1 by simp
  have c2: "contents s2 f2 =
      (if truthy (filter_region fs) \<and> filter_region fs \<noteq> Val ''all''
       then filter (\<lambda>d. region d = filter_region fs) (contents s1 f1)
       else contents s1 f1)" using p2 by simp
  have c3: "contents s3 f3 =
      (if truthy (filter_income fs) \<and> filter_income fs \<noteq> Val ''all''
       then filter (\<lambda>d. income_group d = filter_income fs) (contents s2 f2)
       else contents s2 f2)" using p3 by simp
  have c4: "contents s4 f4 = filter hasBasicData (contents s3 f3)" using p4 by simp
  have "contents s4 f4 = filterData (contents s a) fs"
    unfolding filterData_def Let_def c4 c3 c2 c1 c0 by (rule refl)
  with res fr show ?thesis by blast
qed

text \<open>
  Claim C9. \<open>filterData\<close> has no observable effect on the dataset store. On a store
  whose \<open>this.data\<close> is an array, the call returns; afterwards \<open>this.data\<close> refers to the
  same array, every array that existed holds the same references in the same order,
  and every record has the same field values. The records of the returned array are
  the pure function \<open>filterData\<close> of the records of the dataset and the criteria, so
  identical inputs give identical outputs.
\<close>

theorem filterData_store_frame:
  assumes "store_ok s" and "this_data s = Some a"
  shows "\<exists>r s'. filterData_store fs s = Inr (r, s')
           \<and> this_data s' = this_data s \<and> objects s' = objects s
           \<and> (\<forall>b ys. map_of (arrays s) b = Some ys \<longrightarrow> map_of (arrays s') b = Some ys)
           \<and> map (objects s') (elems s' r) = filterData (map (objects s) (elems s a)) fs"
  using filterData_store_steps [OF assms, of fs] unfolding frame_def contents_def by blast

theorem filterData_store_frame_witness:
  "store_ok embedded_store \<and> this_data embedded_store = Some 0
   \<and> (\<exists>r s'. filterData_store
                 \<lparr> filter_year = Val ''2021'', filter_region = Val ''all'',
                   filter_income = Undefined \<rparr> embedded_store = Inr (r, s')
        \<and> this_data s' = Some 0 \<and> objects s' = objects embedded_store
        \<and> elems s' 0 = [0, 1, 2, 3, 4, 5, 6, 7, 8, 9, 10, 11, 12, 13, 14, 15, 16, 17])"
proof -
  let ?fs = "\<lparr> filter_year = Val ''2021'', filter_region = Val ''all'',
               filter_income = Undefined \<rparr>"
  have ok: "store_ok embedded_store" by (simp add: embedded_store_def store_ok_def)
  have d: "this_data embedded_store = Some 0" by (simp add: embedded_store_def)
  have a: "map_of (arrays embedded_store) 0
           = Some [0, 1, 2, 3, 4, 5, 6, 7, 8, 9, 10, 11, 12, 13, 14, 15, 16, 17]"
    by (simp add: embedded_store_def)
  from filterData_store_frame [OF ok d, of ?fs] obtain r s' where
    r: "filterData_store ?fs embedded_store = Inr (r, s')"
    and t: "this_data s' = this_data embedded_store" and o: "objects s' = objects embedded_store"
    and f: "\<forall>b ys. map_of (arrays embedded_store) b = Some ys \<longrightarrow> map_of (arrays s') b = Some ys"
    by blast
  from f a have "map_of (arrays s') 0
                 = Some [0, 1, 2, 3, 4, 5, 6, 7, 8, 9, 10, 11, 12, 13, 14, 15, 16, 17]"
    by blast
  then have e: "elems s' 0 = [0, 1, 2, 3, 4, 5, 6, 7, 8, 9, 10, 11, 12, 13, 14, 15, 16, 17]"
    by (simp add: elems_def)
  from ok d r t o e show ?thesis by simp
qed

section \<open>Properties of scene navigation\<close>

lemma goToScene_sets:
  "currentScene s \<in> scenes \<Longrightarrow> currentScene (fst (goToScene scenes n s)) = n"
  by (simp add: goToScene_def Let_def updateNavigation_def)

lemma goToScene_throws_early:
  "currentScene s \<notin> scenes \<Longrightarrow> goToScene scenes n s = (s, Some TypeError)"
  by (simp add: goToScene_def)

lemma goToScene_current:
  "currentScene (fst (goToScene scenes n s)) = n
   \<or> currentScene (fst (goToScene scenes n s)) = currentScene s"
  by (cases "currentScene s \<in> scenes") (simp_all add: goToScene_sets goToScene_throws_early)

lemma previousScene_bounds:
  assumes "currentScene s = 1 \<or> currentScene s = 2 \<or> currentScene s = 3"
  shows "currentScene (fst (previousScene scenes s)) = 1
         \<or> currentScene (fst (previousScene scenes s)) = 2
         \<or> currentScene (fst (previousScene scenes s)) = 3"
proof (cases "currentScene s > 1")
  case True
  then have "previousScene scenes s = goToScene scenes (currentScene s - 1) s"
    by (simp add: previousScene_def)
  with goToScene_current [of scenes "currentScene s - 1" s] assms True show ?thesis by auto
next
  case False
  then have "previousScene scenes s = (s, None)" by (simp add: previousScene_def)
  with assms show ?thesis by simp
qed

lemma nextScene_bounds:
  assumes "currentScene s = 1 \<or> currentScene s = 2 \<or> currentScene s = 3"
  shows "currentScene (fst (nextScene scenes s)) = 1
         \<or> currentScene (fst (nextScene scenes s)) = 2
         \<or> currentScene (fst (nextScene scenes s)) = 3"
proof (cases "currentScene s < 3")
  case True
  then have "nextScene scenes s = goToScene scenes (currentScene s + 1) s"
    by (simp add: nextScene_def)
  with goToScene_current [of scenes "currentScene s + 1" s] assms True show ?thesis by auto
next
  case False
  then have "nextScene scenes s = (s, None)" by (simp add: nextScene_def)
  with assms show ?thesis by simp
qed

text \<open>
  Claim C3, as stated, fails for the direct jump: \<open>goToScene\<close> checks nothing. From
  scene 1, on a page with the three scene containers, \<open>goToScene(5)\<close> hides scene 1,
  sets \<open>currentScene\<close> to 5 and then throws on the missing container \<open>#scene-5\<close>.
\<close>

theorem goToScene_out_of_range_counterexample:
  "goToScene {1, 2, 3} 5 first_scene
     = (\<lparr> currentScene = 5, hidden = {1, 2, 3}, prev_disabled = True, next_disabled = False \<rparr>,
        Some TypeError)
   \<and> currentScene (fst (goToScene {1, 2, 3} 5 first_scene)) \<notin> {1, 2, 3}"
  by (simp add: goToScene_def first_scene_def Let_def)

text \<open>
  Claim C3, amended. With \<open>currentScene\<close> in \<open>{1, 2, 3}\<close>, \<open>previousScene\<close> and
  \<open>nextScene\<close> leave it in \<open>{1, 2, 3}\<close>; at scene 1 \<open>previousScene\<close> changes nothing, at
  scene 3 \<open>nextScene\<close> changes nothing. \<open>goToScene\<close> makes no range check: when the
  current scene's container exists it sets \<open>currentScene\<close> to its argument, whatever
  the argument is. So a direct jump to an index in \<open>{1, 2, 3}\<close> leaves \<open>currentScene\<close> in
  \<open>{1, 2, 3}\<close>, and a direct jump to any other index does not.
\<close>

theorem navigation_bounds:
  assumes "currentScene s \<in> {1, 2, 3}"
  shows "currentScene (fst (previousScene scenes s)) \<in> {1, 2, 3}
       \<and> currentScene (fst (nextScene scenes s)) \<in> {1, 2, 3}
       \<and> (currentScene s = 1 \<longrightarrow> previousScene scenes s = (s, None))
       \<and> (currentScene s = 3 \<longrightarrow> nextScene scenes s = (s, None))
       \<and> (currentScene s \<in> scenes \<longrightarrow> currentScene (fst (goToScene scenes n s)) = n)
       \<and> (n \<in> {1, 2, 3} \<longrightarrow> currentScene (fst (goToScene scenes n s)) \<in> {1, 2, 3})
       \<and> (currentScene s \<in> scenes \<and> n \<notin> {1, 2, 3}
          \<longrightarrow> currentScene (fst (goToScene scenes n s)) \<notin> {1, 2, 3})"
proof -
  from assms have c: "currentScene s = 1 \<or> currentScene s = 2 \<or> currentScene s = 3" by simp
  have g: "n \<in> {1, 2, 3} \<longrightarrow> currentScene (fst (goToScene scenes n s)) \<in> {1, 2, 3}"
    using goToScene_current [of scenes n s] assms by auto
  have o: "currentScene s \<in> scenes \<and> n \<notin> {1, 2, 3}
           \<longrightarrow> currentScene (fst (goToScene scenes n s)) \<notin> {1, 2, 3}"
    using goToScene_sets [of s scenes n] by simp
  have p: "currentScene (fst (previousScene scenes s)) \<in> {1, 2, 3}"
    using previousScene_bounds [OF c, of scenes] by simp
  have n: "currentScene (fst (nextScene scenes s)) \<in> {1, 2, 3}"
    using nextScene_bounds [OF c, of scenes] by simp
  have a: "currentScene s = 1 \<longrightarrow> previousScene scenes s = (s, None)"
    by (simp add: previousScene_def)
  have b: "currentScene s = 3 \<longrightarrow> nextScene scenes s = (s, None)"
    by (simp add: nextScene_def)
  from p n a b g o goToScene_sets [of s scenes n] show ?thesis by blast
qed

theorem navigation_bounds_witness:
  "currentScene first_scene \<in> {1, 2, 3}
   \<and> previousScene {1, 2, 3} first_scene = (first_scene, None)
   \<and> currentScene (fst (nextScene {1, 2, 3} first_scene)) \<in> {1, 2, 3}
   \<and> currentScene (fst (goToScene {1, 2, 3} 3 first_scene)) = 3"
proof -
  have h: "currentScene first_scene \<in> {1, 2, 3}" by (simp add: first_scene_def)
  have one: "currentScene first_scene = 1" by (simp add: first_scene_def)
  from navigation_bounds [OF h, of "{1, 2, 3}" 3] h one show ?thesis by simp
qed

section \<open>Properties of the colours\<close>

lemma index_of_append: "index_of x xs = Some i \<Longrightarrow> index_of x (xs @ ys) = Some i"
  by (induction xs arbitrary: i) (auto split: if_splits)

text \<open>
  The fill of a mark is stable: whatever values the scale has met and appended to its
  domain, each of the four tiers keeps its colour and the domain stays as it is.
\<close>

lemma mark_colour_stable:
  "colors_income (income_domain @ seen) (Val ''Low income'')
     = (''#dc2626'', income_domain @ seen)
   \<and> colors_income (income_domain @ seen) (Val ''Lower middle income'')
     = (''#d97706'', income_domain @ seen)
   \<and> colors_income (income_domain @ seen) (Val ''Upper middle income'')
     = (''#059669'', income_domain @ seen)
   \<and> colors_income (income_domain @ seen) (Val ''High income'')
     = (''#2563eb'', income_domain @ seen)"
proof -
  have "index_of (Val ''Low income'') (income_domain @ seen) = Some 0"
    "index_of (Val ''Lower middle income'') (income_domain @ seen) = Some 1"
    "index_of (Val ''Upper middle income'') (income_domain @ seen) = Some 2"
    "index_of (Val ''High income'') (income_domain @ seen) = Some 3"
    by (rule index_of_append, simp add: income_domain_def)+
  then show ?thesis
    by (simp add: colors_income_def scaleOrdinal_def income_range_def)
qed

text \<open>
  Claim C5 at the tiers where the code breaks it. A mark of a high-income country is
  filled \<open>#2563eb\<close> and the legend entry \<open>High income\<close> is filled \<open>#0ea5e9\<close>; a mark of
  a lower-middle-income country is filled \<open>#d97706\<close> and its legend entry \<open>#f59e0b\<close>.
\<close>

theorem legend_colour_differs:
  "fst (colors_income income_domain (Val ''High income'')) = ''#2563eb''
   \<and> map_of incomeGroups ''High income'' = Some ''#0ea5e9''
   \<and> fst (colors_income income_domain (Val ''Lower middle income'')) = ''#d97706''
   \<and> map_of incomeGroups ''Lower middle income'' = Some ''#f59e0b''"
  by (simp add: colors_income_def scaleOrdinal_def income_domain_def income_range_def
      incomeGroups_def)

section \<open>Properties of the radius scale\<close>

lemma transformSqrt_sqrt: "transformSqrt x = sqrt x"
  by (simp add: transformSqrt_def real_sqrt_minus)

lemma extent_fold_vals:
  "foldl extent_step (Val m, Val M) (map Val xs) = (Val (fold min xs m), Val (fold max xs M))"
proof (induction xs arbitrary: m M)
  case Nil
  show ?case by simp
next
  case (Cons x xs)
  have "extent_step (Val m, Val M) (Val x) = (Val (min x m), Val (max x M))"
    by (auto simp: min_def max_def)
  then show ?case by (simp add: Cons.IH)
qed

lemma d3_extent_vals:
  "d3_extent (map Val (x # xs)) = (Val (Min (set (x # xs))), Val (Max (set (x # xs))))"
  unfolding d3_extent_def Min.set_eq_fold Max.set_eq_fold
  by (simp add: extent_fold_vals)

lemma interpolate_3_25: "interpolateNumber 3 25 u = 3 + 22 * u"
  by (simp add: interpolateNumber_def algebra_simps)

lemma scaleSqrt_ordered:
  assumes "lo \<le> hi"
  shows "scaleSqrt (lo, hi) (3, 25) x
         = (if lo = hi then 14
            else 3 + 22 * (transformSqrt x - transformSqrt lo) / (transformSqrt hi - transformSqrt lo))"
proof (cases "lo = hi")
  case True
  then show ?thesis
    by (simp add: scaleSqrt_def normalize_def interpolateNumber_def)
next
  case False
  with assms have lt: "sqrt lo < sqrt hi" by simp
  then have "scaleSqrt (lo, hi) (3, 25) x
             = interpolateNumber 3 25 ((sqrt x - sqrt lo) / (sqrt hi - sqrt lo))"
    by (simp add: scaleSqrt_def normalize_def transformSqrt_sqrt Let_def)
  with False show ?thesis
    by (simp add: interpolate_3_25 transformSqrt_sqrt)
qed

lemma rScale_formula:
  assumes "validData \<noteq> []"
  shows "rScale validData x
         = Fin (let lo = Min (population_or_default ` set validData);
                    hi = Max (population_or_default ` set validData)
                in if lo = hi then 14
                   else 3 + 22 * (transformSqrt x - transformSqrt lo)
                            / (transformSqrt hi - transformSqrt lo))"
proof -
  let ?ps = "map population_or_default validData"
  let ?lo = "Min (population_or_default ` set validData)"
  let ?hi = "Max (population_or_default ` set validData)"
  from assms obtain p ps where ps: "?ps = p # ps" by (cases validData) auto
  have "map (\<lambda>d. Val (population_or_default d)) validData = map Val ?ps" by simp
  also have "d3_extent \<dots> = (Val (Min (set ?ps)), Val (Max (set ?ps)))"
    unfolding ps by (rule d3_extent_vals)
  finally have e: "d3_extent (map (\<lambda>d. Val (population_or_default d)) validData) = (Val ?lo, Val ?hi)"
    by simp
  have "?lo \<le> ?hi" using assms by (simp add: Min_le_iff)
  then show ?thesis
    unfolding rScale_def e by (simp add: scaleSqrt_ordered Let_def)
qed


lemma affine_lo: "3 + 22 * (a - a) / (b - a) = (3::real)"
  by simp

lemma affine_hi:
  assumes "a < b"
  shows "3 + 22 * (b - a) / (b - a) = (25::real)"
proof -
  from assms have "b - a \<noteq> 0" by simp
  then have e: "22 * (b - a) / (b - a) = 22" by (rule nonzero_mult_div_cancel_right)
  show ?thesis unfolding e by simp
qed

lemma affine_mono:
  assumes "a < b" and "s \<le> t"
  shows "3 + 22 * (s - a) / (b - a) \<le> 3 + 22 * (t - a) / (b - (a::real))"
proof -
  from assms(2) have "22 * (s - a) \<le> 22 * (t - a)" by simp
  moreover from assms(1) have "0 \<le> b - a" by simp
  ultimately have "22 * (s - a) / (b - a) \<le> 22 * (t - a) / (b - a)"
    by (rule divide_right_mono)
  then show ?thesis by (rule add_left_mono)
qed

lemma rScale_spread:
  assumes "validData \<noteq> []"
    and "Min (population_or_default ` set validData) < Max (population_or_default ` set validData)"
  shows "rScale validData x
         = Fin (3 + 22 * (transformSqrt x - transformSqrt (Min (population_or_default ` set validData)))
                     / (transformSqrt (Max (population_or_default ` set validData))
                        - transformSqrt (Min (population_or_default ` set validData))))"
proof -
  from assms(2) have "Min (population_or_default ` set validData)
                      \<noteq> Max (population_or_default ` set validData)" by simp
  with rScale_formula [OF assms(1), of x] show ?thesis by (simp only: Let_def if_False)
qed

lemma rScale_ends:
  assumes "validData \<noteq> []"
    and "Min (population_or_default ` set validData) < Max (population_or_default ` set validData)"
  shows "rScale validData (Min (population_or_default ` set validData)) = Fin 3
         \<and> rScale validData (Max (population_or_default ` set validData)) = Fin 25"
proof -
  from assms(2) have "transformSqrt (Min (population_or_default ` set validData))
                      < transformSqrt (Max (population_or_default ` set validData))"
    by (simp add: transformSqrt_sqrt)
  then show ?thesis
    by (simp only: rScale_spread [OF assms] affine_lo affine_hi simp_thms)
qed

lemma rScale_mono:
  assumes "validData \<noteq> []" and "x \<le> y"
  shows "\<exists>r r'. rScale validData x = Fin r \<and> rScale validData y = Fin r' \<and> r \<le> r'"
proof -
  let ?lo = "Min (population_or_default ` set validData)"
  let ?hi = "Max (population_or_default ` set validData)"
  have le: "?lo \<le> ?hi" using assms(1) by (simp add: Min_le_iff)
  show ?thesis
  proof (cases "?lo = ?hi")
    case True
    then show ?thesis by (simp add: rScale_formula [OF assms(1)] Let_def)
  next
    case False
    with le have lt: "?lo < ?hi" by simp
    then have a: "transformSqrt ?lo < transformSqrt ?hi" by (simp add: transformSqrt_sqrt)
    from assms(2) have b: "transformSqrt x \<le> transformSqrt y" by (simp add: transformSqrt_sqrt)
    from affine_mono [OF a b] show ?thesis
      unfolding rScale_spread [OF assms(1) lt] by blast
  qed
qed

lemma sample_populations:
  "population_or_default four_million = 4000000" "population_or_default one_million = 1000000"
  by (simp_all add: population_or_default_def four_million_def one_million_def embedded_def)

text \<open>
  Claim C4, as stated, fails. In a render of two records with populations 4,000,000
  and 1,000,000 (ratio 4 : 1) the marks get the radii 25 and 3, the two ends of the
  range, not radii in the ratio 2 : 1.
\<close>

theorem rScale_ratio_counterexample:
  "population_or_default four_million = 4 * population_or_default one_million
   \<and> mark_radius [four_million, one_million] four_million = Fin 25
   \<and> mark_radius [four_million, one_million] one_million = Fin 3"
  by (simp add: mark_radius_def rScale_formula sample_populations Let_def transformSqrt_sqrt)

text \<open>
  Claim C4, amended. On non-empty rendered data the radius scale maps the square root
  of the population linearly onto the range from 3 to 25: with \<open>lo\<close> and \<open>hi\<close> the
  smallest and the largest population of the rendered data, the radius for population
  \<open>x\<close> is \<open>3 + 22 (\<surd>x - \<surd>lo) / (\<surd>hi - \<surd>lo)\<close>, and 14 when \<open>lo = hi\<close>. So the smallest
  population gets radius 3 and the largest 25, and the radius never decreases as the
  population grows. (Finite numbers are exact reals here.)
\<close>

theorem rScale_sqrt_affine:
  assumes "validData \<noteq> []"
  shows "rScale validData x
         = Fin (let lo = Min (population_or_default ` set validData);
                    hi = Max (population_or_default ` set validData)
                in if lo = hi then 14
                   else 3 + 22 * (transformSqrt x - transformSqrt lo)
                            / (transformSqrt hi - transformSqrt lo))
       \<and> (Min (population_or_default ` set validData) < Max (population_or_default ` set validData)
          \<longrightarrow> rScale validData (Min (population_or_default ` set validData)) = Fin 3
              \<and> rScale validData (Max (population_or_default ` set validData)) = Fin 25)
       \<and> (x \<le> y \<longrightarrow>
            (\<exists>r r'. rScale validData x = Fin r \<and> rScale validData y = Fin r' \<and> r \<le> r'))"
  using rScale_formula [OF assms, of x] rScale_ends [OF assms] rScale_mono [OF assms, of x y]
  by blast

theorem rScale_sqrt_affine_witness:
  "[four_million, one_million] \<noteq> []
   \<and> rScale [four_million, one_million] 1000000 = Fin 3
   \<and> rScale [four_million, one_million] 4000000 = Fin 25
   \<and> rScale [four_million, one_million] 2250000 = Fin 14"
proof -
  have ne: "[four_million, one_million] \<noteq> []" by simp
  have lo: "Min (population_or_default ` set [four_million, one_million]) = 1000000"
    and hi: "Max (population_or_default ` set [four_million, one_million]) = 4000000"
    by (simp_all add: sample_populations)
  have r1: "sqrt 1000000 = 1000" and r2: "sqrt 4000000 = 2000" and r3: "sqrt 2250000 = 1500"
    by (rule real_sqrt_unique; simp)+
  from rScale_sqrt_affine [OF ne, of 2250000 2250000]
  have "rScale [four_million, one_million] 2250000 = Fin 14"
    unfolding lo hi Let_def by (simp add: transformSqrt_sqrt r1 r2 r3)
  moreover from rScale_sqrt_affine [OF ne, of 0 0]
  have "rScale [four_million, one_million] 1000000 = Fin 3
        \<and> rScale [four_million, one_million] 4000000 = Fin 25"
    unfolding lo hi by simp
  ultimately show ?thesis by simp
qed

section \<open>Properties of the trend line\<close>









lemma equal_literacy_sample_records:
  "equal_literacy_sample =
    [ embedded ''United States'' ''USA'' 2021 ''North America'' ''High income''
        63593 0.38 99 78.86 331893745 61,
      embedded ''Germany'' ''DEU'' 2021 ''Europe & Central Asia'' ''High income''
        46208 0.12 99 81.33 83129285 65,
      embedded ''United States'' ''USA'' 2015 ''North America'' ''High income''
        56863 0.42 99 78.69 321418820 58 ]"
  by (simp add: equal_literacy_sample_def getEmbeddedData_def)

lemma equal_literacy_sample_valid:
  "trend_validData equal_literacy_sample Adult_literacy_rate Condom_use_average
   = equal_literacy_sample"
  by (simp add: equal_literacy_sample_records trend_validData_def embedded_def)

lemma equal_literacy_sample_xs:
  "map (get_field Adult_literacy_rate) equal_literacy_sample = [Val 99, Val 99, Val 99]"
  by (simp add: equal_literacy_sample_records embedded_def)

lemma equal_literacy_sample_ys:
  "map (get_field Condom_use_average) equal_literacy_sample = [Val 61, Val 65, Val 58]"
  by (simp add: equal_literacy_sample_records embedded_def)

lemma equal_literacy_sample_means:
  "d3_mean [Val 99, Val 99, Val 99] = Val 99" "d3_mean [Val 61, Val 65, Val 58] = Val (184 / 3)"
  by (simp_all add: d3_mean_def)

lemma equal_literacy_sample_sums:
  "trend_sums equal_literacy_sample Adult_literacy_rate Condom_use_average = (Fin 0, Fin 0)"
  unfolding trend_sums_def Let_def equal_literacy_sample_xs equal_literacy_sample_ys
    equal_literacy_sample_means
  by (simp add: equal_literacy_sample_records embedded_def sums_step_def to_number_def
      js_sub_def Let_def)

lemma equal_literacy_sample_trend:
  "addTrendLine equal_literacy_sample Adult_literacy_rate Condom_use_average = Some (NaN, NaN)"
  unfolding addTrendLine_def Let_def equal_literacy_sample_valid equal_literacy_sample_sums
    equal_literacy_sample_xs equal_literacy_sample_ys equal_literacy_sample_means
  by (simp add: equal_literacy_sample_records to_number_def js_sub_def inf_of_sign_def)









text \<open>
  Claim C10. The division that computes the slope is not guarded against a zero
  denominator: there is an input of at least 3 records with both plotted fields not
  \<open>null\<close> and all x-values equal for which the sum of squared x-deviations is 0 and the
  slope is not a finite number. Three of the embedded records, with literacy rate 99
  each, are such an input.
\<close>

theorem slope_division_unguarded:
  "\<exists>data xField yField x.
      3 \<le> length (trend_validData data xField yField)
      \<and> list_all (\<lambda>d. get_field xField d = Val x) data
      \<and> snd (trend_sums (trend_validData data xField yField) xField yField) = Fin 0
      \<and> addTrendLine data xField yField = Some (NaN, NaN)
      \<and> \<not> is_finite (fst (the (addTrendLine data xField yField)))"
proof -
  have "3 \<le> length (trend_validData equal_literacy_sample Adult_literacy_rate Condom_use_average)"
    unfolding equal_literacy_sample_valid by (simp add: equal_literacy_sample_records)
  moreover have "list_all (\<lambda>d. get_field Adult_literacy_rate d = Val 99) equal_literacy_sample"
    by (simp add: equal_literacy_sample_records embedded_def)
  moreover have
    "snd (trend_sums (trend_validData equal_literacy_sample Adult_literacy_rate Condom_use_average)
            Adult_literacy_rate Condom_use_average) = Fin 0"
    unfolding equal_literacy_sample_valid equal_literacy_sample_sums by simp
  moreover note equal_literacy_sample_trend
  moreover have
    "\<not> is_finite (fst (the (addTrendLine equal_literacy_sample Adult_literacy_rate
                                Condom_use_average)))"
    unfolding equal_literacy_sample_trend by (simp add: is_finite_def)
  ultimately show ?thesis by blast
qed

section \<open>Properties of the scenes' scales\<close>

text \<open>
  A render shows its placeholder exactly when its valid data is empty, and builds no
  scale then.
\<close>

lemma scene_placeholder_iff:
  "(renderScene1 dataset year_value region_value
      = Placeholder ''No data available for the selected filters'')
     = (scene1_validData dataset year_value region_value = [])
   \<and> (renderScene2 dataset year_value educationMetric
      = Placeholder ''Limited education data available'')
     = (scene2_data dataset year_value educationMetric = [])
   \<and> (renderScene3 dataset = Placeholder ''Limited behavioral data available'')
     = (scene3_data dataset = [])"
  by (simp add: renderScene1_def renderScene2_def renderScene3_def Let_def)

text \<open>
  When some record of the valid data has the plotted field present, \<open>d3.extent\<close> and
  \<open>d3.max\<close> return numbers, and the domains of scene 2 are finite.
\<close>

lemma extent_fold_is_val:
  "\<exists>a b. foldl extent_step (Val m, Val M) vs = (Val a, Val b)"
proof (induction vs arbitrary: m M)
  case Nil
  show ?case by simp
next
  case (Cons v vs)
  show ?case by (cases v) (simp_all add: Cons.IH)
qed

lemma d3_extent_is_val:
  assumes "Val x \<in> set vs"
  shows "\<exists>a b. d3_extent vs = (Val a, Val b)"
  using assms unfolding d3_extent_def
proof (induction vs)
  case Nil
  then show ?case by simp
next
  case (Cons v vs)
  show ?case
  proof (cases v)
    case (Val y)
    then show ?thesis using extent_fold_is_val [of y y vs] by simp
  next
    case Undefined
    with Cons show ?thesis by simp
  next
    case Null
    with Cons show ?thesis by simp
  qed
qed

lemma max_fold_is_val: "\<exists>a. foldl max_step (Val M) vs = Val a"
proof (induction vs arbitrary: M)
  case Nil
  show ?case by simp
next
  case (Cons v vs)
  show ?case by (cases v) (simp_all add: Cons.IH)
qed

lemma d3_max_is_val:
  assumes "Val x \<in> set vs"
  shows "\<exists>a. d3_max vs = Val a"
  using assms unfolding d3_max_def
proof (induction vs)
  case Nil
  then show ?case by simp
next
  case (Cons v vs)
  show ?case
  proof (cases v)
    case (Val y)
    then show ?thesis using max_fold_is_val [of y vs] by simp
  next
    case Undefined
    with Cons show ?thesis by simp
  next
    case Null
    with Cons show ?thesis by simp
  qed
qed

lemma renderScene2_finite_when_present:
  assumes x: "list_ex (\<lambda>d. get_field educationMetric d \<noteq> Undefined)
                (scene2_data dataset year_value educationMetric)"
    and h: "list_ex (\<lambda>d. hiv_incidence_rate d \<noteq> Undefined)
                (scene2_data dataset year_value educationMetric)"
  shows "\<exists>sc. renderScene2 dataset year_value educationMetric = Chart sc
           \<and> finite_domain (xDomain sc) \<and> finite_domain (yDomain sc) \<and> finite_domain (rDomain sc)"
proof -
  let ?data = "scene2_data dataset year_value educationMetric"
  from x obtain d where d: "d \<in> set ?data" and dx: "get_field educationMetric d \<noteq> Undefined"
    by (auto simp: list_ex_iff)
  from d have "get_field educationMetric d \<noteq> Null" by (simp add: scene2_data_def)
  with dx obtain v where "get_field educationMetric d = Val v"
    by (cases "get_field educationMetric d") auto
  with d have "Val v \<in> set (map (get_field educationMetric) ?data)" by force
  from d3_extent_is_val [OF this] obtain a b where
    ex: "d3_extent (map (get_field educationMetric) ?data) = (Val a, Val b)" by blast
  from h obtain e where e: "e \<in> set ?data" and eh: "hiv_incidence_rate e \<noteq> Undefined"
    by (auto simp: list_ex_iff)
  from e have "hiv_incidence_rate e \<noteq> Null" by (simp add: scene2_data_def)
  with eh obtain w where "hiv_incidence_rate e = Val w"
    by (cases "hiv_incidence_rate e") auto
  with e have "Val w \<in> set (map hiv_incidence_rate ?data)" by force
  from d3_max_is_val [OF this] obtain c where
    mx: "d3_max (map hiv_incidence_rate ?data) = Val c" by blast
  from d have "Val (population_or_default d) \<in> set (map (\<lambda>d. Val (population_or_default d)) ?data)"
    by force
  from d3_extent_is_val [OF this] obtain p q where
    er: "d3_extent (map (\<lambda>d. Val (population_or_default d)) ?data) = (Val p, Val q)" by blast
  from d have ne: "length ?data \<noteq> 0" by auto
  show ?thesis
    unfolding renderScene2_def Let_def using ne
    by (simp add: ex mx er numbers_def to_number_def finite_domain_def is_finite_def)
qed

lemma scene2_data_embedded:
  "scene2_data getEmbeddedData ''2021'' Secondary_school_enrollment = take 10 getEmbeddedData"
  by (simp add: scene2_data_def getEmbeddedData_def embedded_def year_equals_def parseInt_2021)

text \<open>
  Claim C8 where the code breaks it. On the embedded fallback data, scene 2 with the
  year 2021 and the metric \<open>secondary_school_enrollment\<close> keeps all ten records of 2021,
  because a key that is absent reads \<open>undefined\<close> and \<open>undefined !== null\<close> holds. The
  set is not empty, the scales are built, and the domain of the x scale is
  \<open>[NaN, NaN]\<close>.
\<close>

theorem renderScene2_embedded_domain_not_finite:
  "renderScene2 getEmbeddedData ''2021'' Secondary_school_enrollment
   = Chart \<lparr> xDomain = (NaN, NaN), yDomain = (Fin 0, Fin 8.47),
             rDomain = (Fin 13276513, Fin 1412360000) \<rparr>"
  unfolding renderScene2_def Let_def scene2_data_embedded
  by (simp add: getEmbeddedData_def embedded_def d3_extent_def d3_max_def numbers_def
      to_number_def population_or_default_def)

end
